theory Spec2Isabelle
  imports Main "HOL-Library.Multiset"
begin

section \<open>Values shared by the tool adapter and the request builder\<close>

text \<open>
  Go's \<open>error\<close> values. \<open>External\<close> stands for an error produced by a collaborator
  library (schema inference, schema resolution); \<open>Wrapped p e\<close> is
  \<open>fmt.Errorf(p + ": %w", e)\<close>; \<open>ToolWithoutName\<close> and \<open>DuplicateTool\<close> are the errors
  of \<open>AppendTools\<close>, carrying the index of the offending tool and, for a duplicate, its
  name; a \<open>ConversionError\<close> carries the path of the field a conversion failed at.
\<close>

datatype error =
    External string
  | Wrapped string error
  | ToolWithoutName nat
  | DuplicateTool nat string
  | ConversionError string

text \<open>
  A Go call either returns or panics. A panic that nothing recovers leaves the function
  through every frame above it.
\<close>

datatype 'a outcome = Returns 'a | Panics string

section \<open>tool/function.go\<close>

text \<open>
  \<open>FunctionToolConfig\<close>. A pointer that may be nil is an \<open>option\<close>; the schema type
  \<open>'s\<close> is \<open>jsonschema.Schema\<close>.
\<close>

record 's FunctionToolConfig =
  Name :: string
  Description :: string
  InputSchema :: "'s option"
  OutputSchema :: "'s option"

text \<open>
  \<open>Function[TArgs, TResults]\<close>: a Go function of the context and the arguments. It may
  change the world it runs in (\<open>'w\<close>) and it may panic.
\<close>

type_synonym ('c, 'a, 'b, 'w) Function = "'c \<Rightarrow> 'a \<Rightarrow> 'w \<Rightarrow> 'b outcome \<times> 'w"

text \<open>\<open>FunctionTool\<close>; \<open>'r\<close> is \<open>jsonschema.Resolved\<close>.\<close>

record ('s, 'r, 'c, 'a, 'b, 'w) FunctionTool =
  cfg :: "'s FunctionToolConfig"
  inputSchema :: "'r option"
  outputSchema :: "'r option"
  handler :: "('c, 'a, 'b, 'w) Function"

text \<open>
  \<open>resolvedSchema[T](override)\<close>. The two library calls are parameters, each returning
  Go's pair of a pointer and an error: \<open>Resolve\<close> is \<open>(*Schema).Resolve(nil)\<close> and
  \<open>For\<close> is the result of \<open>jsonschema.For[T]()\<close> for the type at hand.
\<close>

definition resolvedSchema ::
  "('s option \<Rightarrow> 'r option \<times> error option) \<Rightarrow> ('s option \<times> error option) \<Rightarrow>
   's option \<Rightarrow> 'r option \<times> error option" where
  "resolvedSchema Resolve For override =
     (if override \<noteq> None then Resolve override
      else (case For of (schema, err) \<Rightarrow>
              if err \<noteq> None then (None, err) else Resolve schema))"

text \<open>
  \<open>NewFunctionTool(cfg, handler)\<close>; \<open>ForArgs\<close> and \<open>ForResults\<close> are
  \<open>jsonschema.For[TArgs]()\<close> and \<open>jsonschema.For[TResults]()\<close>.
\<close>

definition NewFunctionTool ::
  "('s option \<Rightarrow> 'r option \<times> error option) \<Rightarrow> ('s option \<times> error option) \<Rightarrow>
   ('s option \<times> error option) \<Rightarrow> 's FunctionToolConfig \<Rightarrow> ('c, 'a, 'b, 'w) Function \<Rightarrow>
   ('s, 'r, 'c, 'a, 'b, 'w) FunctionTool option \<times> error option" where
  "NewFunctionTool Resolve ForArgs ForResults config h =
     (case resolvedSchema Resolve ForArgs (InputSchema config) of
        (ischema, Some err) \<Rightarrow> (None, Some (Wrapped ''failed to infer input schema'' err))
      | (ischema, None) \<Rightarrow>
          (case resolvedSchema Resolve ForResults (OutputSchema config) of
             (oschema, Some err) \<Rightarrow>
               (None, Some (Wrapped ''failed to infer output schema'' err))
           | (oschema, None) \<Rightarrow>
               (Some \<lparr>cfg = config, inputSchema = ischema, outputSchema = oschema,
                      handler = h\<rparr>, None)))"

text \<open>The accessors \<open>Description()\<close> and \<open>Name()\<close> of a \<open>FunctionTool\<close>.\<close>

definition FunctionTool_Description :: "('s, 'r, 'c, 'a, 'b, 'w) FunctionTool \<Rightarrow> string" where
  "FunctionTool_Description f = Description (cfg f)"

definition FunctionTool_Name :: "('s, 'r, 'c, 'a, 'b, 'w) FunctionTool \<Rightarrow> string" where
  "FunctionTool_Name f = Name (cfg f)"

text \<open>\<open>genai.FunctionDeclaration\<close>, with the four fields the adapter fills.\<close>

record 's FunctionDeclaration =
  decl_Name :: string
  decl_Description :: string
  ParametersJsonSchema :: "'s option"
  ResponseJsonSchema :: "'s option"

text \<open>
  \<open>FunctionDeclaration()\<close>; \<open>Schema\<close> is the method \<open>(*Resolved).Schema()\<close>. The result
  is the pointer to a fresh struct, so it is never nil.
\<close>

definition FunctionTool_FunctionDeclaration ::
  "('r \<Rightarrow> 's) \<Rightarrow> ('s, 'r, 'c, 'a, 'b, 'w) FunctionTool \<Rightarrow> 's FunctionDeclaration option" where
  "FunctionTool_FunctionDeclaration Schema f =
     (let decl = \<lparr>decl_Name = FunctionTool_Name f,
                  decl_Description = FunctionTool_Description f,
                  ParametersJsonSchema = None, ResponseJsonSchema = None\<rparr>;
          decl1 = (case inputSchema f of
                     Some i \<Rightarrow> decl\<lparr>ParametersJsonSchema := Some (Schema i)\<rparr>
                   | None \<Rightarrow> decl);
          decl2 = (case outputSchema f of
                     Some o' \<Rightarrow> decl1\<lparr>ResponseJsonSchema := Some (Schema o')\<rparr>
                   | None \<Rightarrow> decl1)
      in Some decl2)"

text \<open>
  \<open>Run(ctx, tc, args)\<close>. A document (\<open>map[string]any\<close>) is a \<open>'d option\<close>, \<open>None\<close> the
  nil map. The two instances of \<open>typeutil.ConvertToWithJSONSchema\<close> are parameters:
  \<open>ConvertIn\<close> from a document to \<open>TArgs\<close> and \<open>ConvertOut\<close> from \<open>TResults\<close> to a
  document, each returning Go's pair of a value and an error. Nothing in \<open>Run\<close>
  recovers a panic of the handler.
\<close>

definition Run ::
  "('d option \<Rightarrow> 'r option \<Rightarrow> 'a \<times> error option) \<Rightarrow>
   ('b \<Rightarrow> 'r option \<Rightarrow> 'd option \<times> error option) \<Rightarrow>
   ('s, 'r, 'c, 'a, 'b, 'w) FunctionTool \<Rightarrow> 'c \<Rightarrow> 't \<Rightarrow> 'd option \<Rightarrow> 'w \<Rightarrow>
   ('d option \<times> error option) outcome \<times> 'w" where
  "Run ConvertIn ConvertOut f ctx tc args w =
     (case ConvertIn args (inputSchema f) of (input, err) \<Rightarrow>
        if err \<noteq> None then (Returns (None, err), w)
        else (case handler f ctx input w of
                (Panics p, w') \<Rightarrow> (Panics p, w')
              | (Returns output, w') \<Rightarrow> (Returns (ConvertOut output (outputSchema f)), w')))"

section \<open>The request builder (package adk)\<close>

text \<open>
  \<open>genai.Part\<close>, \<open>genai.Content\<close>, \<open>genai.Tool\<close> and \<open>genai.GenerateContentConfig\<close>, with
  the fields the request builder reads or writes. The parts of a content are pointers.
\<close>

record Part =
  Text :: string

record Content =
  Parts :: "Part option list"
  Role :: string

record 's genai_Tool =
  FunctionDeclarations :: "'s FunctionDeclaration list"

record 's GenerateContentConfig =
  SystemInstruction :: "Content option"
  config_Tools :: "'s genai_Tool list"

text \<open>
  \<open>genai.NewContentFromText(text, role)\<close>: a content of one text part; the library
  replaces an empty role by \<open>user\<close>.
\<close>

definition NewContentFromText :: "string \<Rightarrow> string \<Rightarrow> Content" where
  "NewContentFromText text role =
     \<lparr>Parts = [Some \<lparr>Text = text\<rparr>], Role = (if role = [] then ''user'' else role)\<rparr>"

text \<open>
  A value of the interface \<open>adk.Tool\<close>, seen through the two things \<open>AppendTools\<close> asks
  of it: its \<open>Name()\<close>, and whether it also implements \<open>itype.FunctionTool\<close>
  (\<open>tool_FunctionTool = Some d\<close>, with \<open>d\<close> the possibly nil result of its
  \<open>FunctionDeclaration()\<close>). A nil interface value is \<open>None\<close> of \<open>Tool option\<close>.
\<close>

record 's Tool =
  tool_Name :: string
  tool_FunctionTool :: "'s FunctionDeclaration option option"

text \<open>A \<open>FunctionTool\<close> as a value of that interface.\<close>

definition as_Tool :: "('r \<Rightarrow> 's) \<Rightarrow> ('s, 'r, 'c, 'a, 'b, 'w) FunctionTool \<Rightarrow> 's Tool" where
  "as_Tool Schema f =
     \<lparr>tool_Name = FunctionTool_Name f,
      tool_FunctionTool = Some (FunctionTool_FunctionDeclaration Schema f)\<rparr>"

text \<open>
  \<open>LLMRequest\<close>. The model is known by its name; \<open>Tools\<close> is a Go map, which may be nil.
\<close>

record 's LLMRequest =
  Model :: "string option"
  Contents :: "Content list"
  GenerateConfig :: "'s GenerateContentConfig option"
  Tools :: "(string \<rightharpoonup> 's Tool) option"

text \<open>Reading a nil map finds no key.\<close>

definition registry :: "'s LLMRequest \<Rightarrow> (string \<rightharpoonup> 's Tool)" where
  "registry r = (case Tools r of None \<Rightarrow> Map.empty | Some m \<Rightarrow> m)"

text \<open>The declared-tool list \<open>r.GenerateConfig.Tools\<close>, empty while there is no config.\<close>

definition declared :: "'s LLMRequest \<Rightarrow> 's genai_Tool list" where
  "declared r = (case GenerateConfig r of None \<Rightarrow> [] | Some gc \<Rightarrow> config_Tools gc)"

text \<open>\<open>strings.Join(elems, sep)\<close>.\<close>

fun Join :: "string list \<Rightarrow> string \<Rightarrow> string" where
  "Join [] sep = []"
| "Join [x] sep = x"
| "Join (x # y # ys) sep = x @ sep @ Join (y # ys) sep"

text \<open>The separator of instructions: two newline characters, a blank line.\<close>

definition blank_line :: string where
  "blank_line = [CHR 0x0A, CHR 0x0A]"

text \<open>
  \<open>AppendInstructions(instructions...)\<close>. The method reads \<open>r.GenerateConfig\<close> without a
  nil check and the first part of the current instruction without one: both
  dereferences panic on nil. The conjunction of the source is evaluated left to right.
  \<open>set_SystemInstruction r gc text\<close> is the assignment
  \<open>r.GenerateConfig.SystemInstruction = genai.NewContentFromText(text, "")\<close>, with \<open>gc\<close>
  the configuration the request points to.
\<close>

definition set_SystemInstruction ::
  "'s LLMRequest \<Rightarrow> 's GenerateContentConfig \<Rightarrow> string \<Rightarrow> 's LLMRequest" where
  "set_SystemInstruction r gc text =
     r\<lparr>GenerateConfig := Some (gc\<lparr>SystemInstruction := Some (NewContentFromText text [])\<rparr>)\<rparr>"

definition nil_dereference :: string where
  "nil_dereference = ''invalid memory address or nil pointer dereference''"

definition AppendInstructions :: "'s LLMRequest \<Rightarrow> string list \<Rightarrow> 's LLMRequest outcome" where
  "AppendInstructions r instructions =
     (if length instructions = 0 then Returns r
      else
        let inst = Join instructions blank_line in
        (case GenerateConfig r of
           None \<Rightarrow> Panics nil_dereference
         | Some gc \<Rightarrow>
             (case SystemInstruction gc of
                None \<Rightarrow> Returns (set_SystemInstruction r gc inst)
              | Some current \<Rightarrow>
                  (case Parts current of
                     [] \<Rightarrow> Returns (set_SystemInstruction r gc inst)
                   | None # _ \<Rightarrow> Panics nil_dereference
                   | Some p # _ \<Rightarrow>
                       if Text p \<noteq> []
                       then Returns (set_SystemInstruction r gc (Text p @ blank_line @ inst))
                       else Returns (set_SystemInstruction r gc inst)))))"

text \<open>
  \<open>AppendTools(tools...)\<close>. The method changes the request in place and then returns
  an error or nil, so the model returns the request as the call leaves it together with
  the error. \<open>AppendTools_loop\<close> is the \<open>for i, tool := range tools\<close> loop from index \<open>i\<close>,
  and \<open>register_tool\<close> is what one iteration does once its two checks have passed: the
  store into \<open>r.Tools\<close> and the append of the declaration.
\<close>

definition register_tool :: "'s LLMRequest \<Rightarrow> 's Tool \<Rightarrow> 's LLMRequest" where
  "register_tool r tool =
     (let name = tool_Name tool;
          r1 = r\<lparr>Tools := Some ((registry r)(name \<mapsto> tool))\<rparr>
      in (case tool_FunctionTool tool of
            None \<Rightarrow> r1
          | Some fd \<Rightarrow>
              let gc = (case GenerateConfig r1 of
                          None \<Rightarrow> \<lparr>SystemInstruction = None, config_Tools = []\<rparr>
                        | Some gc' \<Rightarrow> gc')
              in (case fd of
                    None \<Rightarrow> r1\<lparr>GenerateConfig := Some gc\<rparr>
                  | Some decl \<Rightarrow>
                      r1\<lparr>GenerateConfig :=
                           Some (gc\<lparr>config_Tools :=
                                      config_Tools gc @ [\<lparr>FunctionDeclarations = [decl]\<rparr>]\<rparr>)\<rparr>)))"

fun AppendTools_loop ::
  "'s LLMRequest \<Rightarrow> nat \<Rightarrow> 's Tool option list \<Rightarrow> 's LLMRequest \<times> error option" where
  "AppendTools_loop r i [] = (r, None)"
| "AppendTools_loop r i (None # tools) = (r, Some (ToolWithoutName i))"
| "AppendTools_loop r i (Some tool # tools) =
     (if tool_Name tool = [] then (r, Some (ToolWithoutName i))
      else (case registry r (tool_Name tool) of
              Some _ \<Rightarrow> (r, Some (DuplicateTool i (tool_Name tool)))
            | None \<Rightarrow> AppendTools_loop (register_tool r tool) (Suc i) tools))"

definition AppendTools ::
  "'s LLMRequest \<Rightarrow> 's Tool option list \<Rightarrow> 's LLMRequest \<times> error option" where
  "AppendTools r tools =
     AppendTools_loop (if Tools r = None then r\<lparr>Tools := Some Map.empty\<rparr> else r) 0 tools"

text \<open>\<open>ProcessRequest(ctx, tc, req)\<close> of a \<open>FunctionTool\<close> appends the tool itself.\<close>

definition FunctionTool_ProcessRequest ::
  "('r \<Rightarrow> 's) \<Rightarrow> ('s, 'r, 'c, 'a, 'b, 'w) FunctionTool \<Rightarrow> 'c \<Rightarrow> 't \<Rightarrow> 's LLMRequest \<Rightarrow>
   's LLMRequest \<times> error option" where
  "FunctionTool_ProcessRequest Schema f ctx tc req = AppendTools req [Some (as_Tool Schema f)]"

text \<open>The zero value \<open>LLMRequest{}\<close>.\<close>

definition empty_request :: "'s LLMRequest" where
  "empty_request = \<lparr>Model = None, Contents = [], GenerateConfig = None, Tools = None\<rparr>"

section \<open>The value converter\<close>

text \<open>
  An untyped value (Go's \<open>any\<close> after JSON decoding), the types a schema can declare for
  a field, and an object schema as the list of its fields.
\<close>

datatype json =
    JNull
  | JBool bool
  | JNumber int
  | JString string
  | JArray "json list"
  | JObject "(string \<times> json) list"

datatype json_type = TNumber | TString | TBool | TObject | TArray

record property =
  prop_name :: string
  prop_type :: json_type
  prop_required :: bool

type_synonym schema = "property list"

type_synonym document = "(string \<times> json) list"

fun has_type :: "json \<Rightarrow> json_type \<Rightarrow> bool" where
  "has_type v TNumber = (case v of JNumber n \<Rightarrow> True | _ \<Rightarrow> False)"
| "has_type v TString = (case v of JString s \<Rightarrow> True | _ \<Rightarrow> False)"
| "has_type v TBool = (case v of JBool b \<Rightarrow> True | _ \<Rightarrow> False)"
| "has_type v TObject = (case v of JObject fs \<Rightarrow> True | _ \<Rightarrow> False)"
| "has_type v TArray = (case v of JArray vs \<Rightarrow> True | _ \<Rightarrow> False)"

text \<open>
  Modelled from the spec: \<open>typeutil.ConvertToWithJSONSchema\<close> (package
  \<open>internal/typeutil\<close>) is missing from the sources. Section 4.3 of the specification
  gives its two directions. Document to typed value: walk the schema's fields, find each
  in the input document by name, enforce the declared type, and report a missing
  required field or a mismatch as an error keyed by the field path; then populate the
  typed value from the document by name. Fields of the document that the schema does
  not list are ignored (the lenient choice the specification allows). \<open>populate\<close>
  stands for the host type \<open>TArgs\<close>: it builds the value from the fields found by name,
  and \<open>zero\<close> is the zero value returned beside an error.
\<close>

fun check_fields :: "schema \<Rightarrow> document \<Rightarrow> error option" where
  "check_fields [] doc = None"
| "check_fields (p # ps) doc =
     (case map_of doc (prop_name p) of
        None \<Rightarrow>
          if prop_required p then Some (ConversionError (prop_name p))
          else check_fields ps doc
      | Some v \<Rightarrow>
          if has_type v (prop_type p) then check_fields ps doc
          else Some (ConversionError (prop_name p)))"

definition document_to_typed ::
  "((string \<rightharpoonup> json) \<Rightarrow> 'a) \<Rightarrow> 'a \<Rightarrow> document option \<Rightarrow> schema option \<Rightarrow> 'a \<times> error option" where
  "document_to_typed populate zero args rs =
     (let doc = (case args of None \<Rightarrow> [] | Some d \<Rightarrow> d) in
      (case rs of
         None \<Rightarrow> (populate (map_of doc), None)
       | Some sch \<Rightarrow>
           (case check_fields sch doc of
              Some e \<Rightarrow> (zero, Some e)
            | None \<Rightarrow> (populate (map_of doc), None))))"

text \<open>
  Modelled from the spec: the other direction of the missing converter. Typed value to
  document: walk the typed value's fields per the schema's declared output shape and emit
  a document containing exactly the schema's fields. \<open>list_fields\<close> stands for the host type
  \<open>TResults\<close>: it lists the value's fields by name. A required field that the value
  lacks, or a field of another type than declared, is an error keyed by the field path.
\<close>

fun emit_fields :: "schema \<Rightarrow> (string \<rightharpoonup> json) \<Rightarrow> error + document" where
  "emit_fields [] m = Inr []"
| "emit_fields (p # ps) m =
     (case m (prop_name p) of
        None \<Rightarrow>
          if prop_required p then Inl (ConversionError (prop_name p))
          else emit_fields ps m
      | Some v \<Rightarrow>
          if has_type v (prop_type p)
          then (case emit_fields ps m of
                  Inl e \<Rightarrow> Inl e
                | Inr d \<Rightarrow> Inr ((prop_name p, v) # d))
          else Inl (ConversionError (prop_name p)))"

definition typed_to_document ::
  "('b \<Rightarrow> document) \<Rightarrow> 'b \<Rightarrow> schema option \<Rightarrow> document option \<times> error option" where
  "typed_to_document list_fields v rs =
     (case rs of
        None \<Rightarrow> (Some (list_fields v), None)
      | Some sch \<Rightarrow>
          (case emit_fields sch (map_of (list_fields v)) of
             Inl e \<Rightarrow> (None, Some e)
           | Inr d \<Rightarrow> (Some d, None)))"

section \<open>The adapter of the scenario: \<open>add\<close>\<close>

text \<open>
  The handler \<open>(ctx, {A int, B int}) -> {Sum int}\<close> of the specification's scenario,
  its two types with the way each is populated from, or listed as, a document, and the
  schemas inferred for them. The scenario's numbers are far from the bounds of Go's
  \<open>int\<close>, so the fields are integers.
\<close>

record add_args =
  add_A :: int
  add_B :: int

record add_results =
  add_Sum :: int

definition number_field :: "(string \<rightharpoonup> json) \<Rightarrow> string \<Rightarrow> int" where
  "number_field m k = (case m k of Some (JNumber n) \<Rightarrow> n | _ \<Rightarrow> 0)"

definition populate_add_args :: "(string \<rightharpoonup> json) \<Rightarrow> add_args" where
  "populate_add_args m = \<lparr>add_A = number_field m ''A'', add_B = number_field m ''B''\<rparr>"

definition zero_add_args :: add_args where
  "zero_add_args = \<lparr>add_A = 0, add_B = 0\<rparr>"

definition fields_add_results :: "add_results \<Rightarrow> document" where
  "fields_add_results v = [(''Sum'', JNumber (add_Sum v))]"

definition add_args_schema :: schema where
  "add_args_schema =
     [\<lparr>prop_name = ''A'', prop_type = TNumber, prop_required = True\<rparr>,
      \<lparr>prop_name = ''B'', prop_type = TNumber, prop_required = True\<rparr>]"

definition add_results_schema :: schema where
  "add_results_schema = [\<lparr>prop_name = ''Sum'', prop_type = TNumber, prop_required = True\<rparr>]"

definition add_handler :: "(unit, add_args, add_results, nat) Function" where
  "add_handler ctx a w = (Returns \<lparr>add_Sum = add_A a + add_B a\<rparr>, w)"

text \<open>
  A resolver that accepts every schema and keeps it as it is, so that a resolved schema
  is the schema itself and \<open>Schema()\<close> is the identity. It reports an error for the nil
  schema.
\<close>

definition Resolve_any :: "schema option \<Rightarrow> schema option \<times> error option" where
  "Resolve_any s =
     (case s of None \<Rightarrow> (None, Some (External ''nil schema'')) | Some x \<Rightarrow> (Some x, None))"

text \<open>An output schema that does not fit \<open>{Sum int}\<close>.\<close>

definition mismatched_schema :: schema where
  "mismatched_schema = [\<lparr>prop_name = ''Total'', prop_type = TString, prop_required = True\<rparr>]"

definition add_config :: "schema FunctionToolConfig" where
  "add_config =
     \<lparr>Name = ''add'', Description = ''adds two numbers'', InputSchema = None,
      OutputSchema = None\<rparr>"

definition add_tool :: "(schema, schema, unit, add_args, add_results, nat) FunctionTool" where
  "add_tool =
     \<lparr>cfg = add_config, inputSchema = Some add_args_schema,
      outputSchema = Some add_results_schema, handler = add_handler\<rparr>"

text \<open>
  A handler that panics: Go's integer division panics on a zero divisor. It divides
  \<open>A\<close> by \<open>B\<close> and returns the quotient in \<open>Sum\<close>.
\<close>

definition div_handler :: "(unit, add_args, add_results, nat) Function" where
  "div_handler ctx a w =
     (if add_B a = 0 then (Panics ''runtime error: integer divide by zero'', w)
      else (Returns \<lparr>add_Sum = add_A a div add_B a\<rparr>, w))"

section \<open>Sequences of calls and what is observed of a request\<close>

text \<open>
  \<open>AppendInstructions\<close> called once per instruction, in order; a panic ends the sequence.
\<close>

fun AppendInstructions_each :: "'s LLMRequest \<Rightarrow> string list \<Rightarrow> 's LLMRequest outcome" where
  "AppendInstructions_each r [] = Returns r"
| "AppendInstructions_each r (x # xs) =
     (case AppendInstructions r [x] of
        Panics p \<Rightarrow> Panics p
      | Returns r' \<Rightarrow> AppendInstructions_each r' xs)"

text \<open>
  The system instruction text of a request: the text of the first part of its system
  instruction, where there is one.
\<close>

definition system_text :: "'s LLMRequest \<Rightarrow> string option" where
  "system_text r =
     (case GenerateConfig r of
        None \<Rightarrow> None
      | Some gc \<Rightarrow>
          (case SystemInstruction gc of
             None \<Rightarrow> None
           | Some c \<Rightarrow> (case Parts c of Some p # _ \<Rightarrow> Some (Text p) | _ \<Rightarrow> None)))"

text \<open>
  The text \<open>AppendInstructions\<close> treats as the current one (empty where there is none),
  and the text it stores for a current text and the joined instructions.
\<close>

definition current_text :: "'s LLMRequest \<Rightarrow> string" where
  "current_text r = (case system_text r of None \<Rightarrow> [] | Some t \<Rightarrow> t)"

definition appended_text :: "string \<Rightarrow> string \<Rightarrow> string" where
  "appended_text current inst = (if current \<noteq> [] then current @ blank_line @ inst else inst)"

text \<open>A request that has a generation configuration and nothing else.\<close>

definition configured_request :: "schema LLMRequest" where
  "configured_request =
     empty_request\<lparr>GenerateConfig := Some \<lparr>SystemInstruction = None, config_Tools = []\<rparr>\<rparr>"

text \<open>A sequence of \<open>AppendTools\<close> calls, each on the request the one before left.\<close>

fun AppendTools_calls :: "'s LLMRequest \<Rightarrow> 's Tool option list list \<Rightarrow> 's LLMRequest" where
  "AppendTools_calls r [] = r"
| "AppendTools_calls r (b # bs) = AppendTools_calls (fst (AppendTools r b)) bs"

text \<open>
  The names of the tools of a batch and the entries they contribute to the declared-tool
  list, in order: one entry for a function tool with a non-nil declaration, none for any
  other tool.
\<close>

fun names :: "'s Tool option list \<Rightarrow> string list" where
  "names [] = []"
| "names (None # ts) = names ts"
| "names (Some t # ts) = tool_Name t # names ts"

definition contributed :: "'s Tool \<Rightarrow> 's genai_Tool list" where
  "contributed t =
     (case tool_FunctionTool t of
        Some (Some decl) \<Rightarrow> [\<lparr>FunctionDeclarations = [decl]\<rparr>]
      | _ \<Rightarrow> [])"

fun declarations :: "'s Tool option list \<Rightarrow> 's genai_Tool list" where
  "declarations [] = []"
| "declarations (None # ts) = declarations ts"
| "declarations (Some t # ts) = contributed t @ declarations ts"

text \<open>
  What \<open>AppendTools\<close> rejects: the tool at index \<open>k\<close> of the batch is nil, has an empty
  name, or has a name that is already in the registry or belongs to an earlier tool of
  the batch; and the error it returns for that tool.
\<close>

definition rejected_at :: "'s LLMRequest \<Rightarrow> 's Tool option list \<Rightarrow> nat \<Rightarrow> bool" where
  "rejected_at r tools k =
     (case tools ! k of
        None \<Rightarrow> True
      | Some t \<Rightarrow>
          tool_Name t = [] \<or> tool_Name t \<in> dom (registry r) \<or>
          tool_Name t \<in> set (names (take k tools)))"

definition rejection_error :: "'s Tool option list \<Rightarrow> nat \<Rightarrow> error" where
  "rejection_error tools k =
     (case tools ! k of
        None \<Rightarrow> ToolWithoutName k
      | Some t \<Rightarrow>
          if tool_Name t = [] then ToolWithoutName k else DuplicateTool k (tool_Name t))"

text \<open>
  The tools currently in the registry, as a multiset, and the invariant of the request:
  every key of the registry is the non-empty name of the tool stored under it, and the
  declared-tool list holds, as a multiset, exactly what the registered tools contribute.
\<close>

definition registered :: "'s LLMRequest \<Rightarrow> 's Tool multiset" where
  "registered r = mset_set (ran (registry r))"

definition registry_invariant :: "'s LLMRequest \<Rightarrow> bool" where
  "registry_invariant r \<longleftrightarrow>
     finite (dom (registry r)) \<and>
     (\<forall>k t. registry r k = Some t \<longrightarrow> tool_Name t = k \<and> k \<noteq> []) \<and>
     mset (declared r) = sum_mset (image_mset (\<lambda>t. mset (contributed t)) (registered r))"

text \<open>
  The adapter \<open>add\<close> as a tool, and a tool of another kind (no function declaration)
  that has the same name.
\<close>

definition add_Tool :: "schema Tool" where
  "add_Tool = as_Tool (\<lambda>r. r) add_tool"

definition other_add_Tool :: "schema Tool" where
  "other_add_Tool = \<lparr>tool_Name = ''add'', tool_FunctionTool = None\<rparr>"

text \<open>A batch of two tools that share a name, both otherwise acceptable.\<close>

definition same_name_batch :: "schema Tool option list" where
  "same_name_batch = [Some add_Tool, Some other_add_Tool]"

section \<open>Properties of the typed function adapter\<close>

subsection \<open>Helper facts on the converter\<close>

lemma check_fields_missing:
  "p \<in> set sch \<Longrightarrow> prop_required p \<Longrightarrow> map_of doc (prop_name p) = None \<Longrightarrow>
   check_fields sch doc \<noteq> None"
  by (induction sch) (auto split: option.splits)

lemma check_fields_mismatch:
  "p \<in> set sch \<Longrightarrow> map_of doc (prop_name p) = Some v \<Longrightarrow> \<not> has_type v (prop_type p) \<Longrightarrow>
   check_fields sch doc \<noteq> None"
  by (induction sch) (auto split: option.splits)

lemma document_to_typed_rejects:
  assumes "p \<in> set sch"
    and "(prop_required p \<and> map_of doc (prop_name p) = None) \<or>
         (\<exists>v. map_of doc (prop_name p) = Some v \<and> \<not> has_type v (prop_type p))"
  shows "\<exists>e. document_to_typed populate zero (Some doc) (Some sch) = (zero, Some e)"
proof -
  have "check_fields sch doc \<noteq> None"
    using assms check_fields_missing check_fields_mismatch by blast
  then obtain e where "check_fields sch doc = Some e" by blast
  then show ?thesis by (simp add: document_to_typed_def)
qed

lemma Run_add_2_3:
  "Run (document_to_typed populate_add_args zero_add_args) (typed_to_document fields_add_results)
        add_tool () tc (Some [(''A'', JNumber 2), (''B'', JNumber 3)]) w
      = (Returns (Some [(''Sum'', JNumber 5)], None), w)"
  by (simp add: Run_def document_to_typed_def typed_to_document_def add_tool_def add_args_schema_def
      add_results_schema_def populate_add_args_def number_field_def fields_add_results_def add_handler_def)

subsection \<open>Construction and execution\<close>

text \<open>
  C2. The claim: a panic raised by the handler is intercepted by \<open>Run\<close> and returned as
  a typed execution error. The code has no such guard (its comment \<open>TODO: Handle panic ->
  convert to error\<close> says so): on the document \<open>{"A":1,"B":0}\<close> the dividing handler
  panics, and \<open>Run\<close> does not return a document and an error, it panics with the
  handler's fault.
\<close>

theorem Run_propagates_handler_panic:
  "Run (document_to_typed populate_add_args zero_add_args) (typed_to_document fields_add_results)
       (add_tool\<lparr>handler := div_handler\<rparr>) () tc (Some [(''A'', JNumber 1), (''B'', JNumber 0)]) w
     = (Panics ''runtime error: integer divide by zero'', w)"
  by (simp add: Run_def document_to_typed_def add_tool_def add_args_schema_def
      populate_add_args_def number_field_def div_handler_def)

text \<open>
  C6. \<open>Run\<close> converts the args document into a \<open>TArgs\<close> value against the input schema
  and returns the conversion error if that fails; otherwise it invokes the handler with
  the converted value and returns the conversion of the handler's result into a document
  against the output schema. With the converter of section 4.3, a document that lacks a
  required field of the input schema, or holds a value of another type than declared,
  is answered by a conversion error. For the adapter \<open>add\<close>, \<open>Run\<close> on
  \<open>{"A":2,"B":3}\<close> returns \<open>{"Sum":5}\<close> and no error.
\<close>

theorem Run_converts_invokes_converts:
  "(\<forall>x e. ConvertIn args (inputSchema f) = (x, Some e) \<longrightarrow>
      Run ConvertIn ConvertOut f ctx tc args w = (Returns (None, Some e), w)) \<and>
   (\<forall>x y w'. ConvertIn args (inputSchema f) = (x, None) \<and> handler f ctx x w = (Returns y, w') \<longrightarrow>
      Run ConvertIn ConvertOut f ctx tc args w = (Returns (ConvertOut y (outputSchema f)), w')) \<and>
   (\<forall>p sch doc. inputSchema g = Some sch \<and> p \<in> set sch \<and>
        ((prop_required p \<and> map_of doc (prop_name p) = None) \<or>
         (\<exists>v. map_of doc (prop_name p) = Some v \<and> \<not> has_type v (prop_type p))) \<longrightarrow>
      (\<exists>e. Run (document_to_typed populate zero) ConvertOut' g ctx' tc' (Some doc) w'' =
             (Returns (None, Some e), w''))) \<and>
   Run (document_to_typed populate_add_args zero_add_args) (typed_to_document fields_add_results)
       add_tool () tc'' (Some [(''A'', JNumber 2), (''B'', JNumber 3)]) w''' =
     (Returns (Some [(''Sum'', JNumber 5)], None), w''')"
proof (intro conjI allI impI)
  fix x e assume "ConvertIn args (inputSchema f) = (x, Some e)"
  then show "Run ConvertIn ConvertOut f ctx tc args w = (Returns (None, Some e), w)"
    by (simp add: Run_def)
next
  fix x y w'
  assume "ConvertIn args (inputSchema f) = (x, None) \<and> handler f ctx x w = (Returns y, w')"
  then show "Run ConvertIn ConvertOut f ctx tc args w = (Returns (ConvertOut y (outputSchema f)), w')"
    by (simp add: Run_def)
next
  fix p sch doc
  assume a: "inputSchema g = Some sch \<and> p \<in> set sch \<and>
        ((prop_required p \<and> map_of doc (prop_name p) = None) \<or>
         (\<exists>v. map_of doc (prop_name p) = Some v \<and> \<not> has_type v (prop_type p)))"
  then obtain e where "document_to_typed populate zero (Some doc) (Some sch) = (zero, Some e)"
    using document_to_typed_rejects [of p sch doc populate zero] by blast
  with a show "\<exists>e. Run (document_to_typed populate zero) ConvertOut' g ctx' tc' (Some doc) w'' =
             (Returns (None, Some e), w'')"
    by (simp add: Run_def)
next
  show "Run (document_to_typed populate_add_args zero_add_args) (typed_to_document fields_add_results)
       add_tool () tc'' (Some [(''A'', JNumber 2), (''B'', JNumber 3)]) w''' =
     (Returns (Some [(''Sum'', JNumber 5)], None), w''')"
    by (rule Run_add_2_3)
qed

theorem Run_converts_invokes_converts_witness:
  "document_to_typed populate_add_args zero_add_args (Some [(''A'', JNumber 4), (''B'', JNumber 6)])
       (inputSchema add_tool) = (\<lparr>add_A = 4, add_B = 6\<rparr>, None) \<and>
   handler add_tool () \<lparr>add_A = 4, add_B = 6\<rparr> (0::nat) = (Returns \<lparr>add_Sum = 10\<rparr>, 0) \<and>
   Run (document_to_typed populate_add_args zero_add_args) (typed_to_document fields_add_results)
       add_tool () () (Some [(''A'', JNumber 4), (''B'', JNumber 6)]) (0::nat) =
     (Returns (Some [(''Sum'', JNumber 10)], None), 0)"
proof -
  let ?ci = "document_to_typed populate_add_args zero_add_args"
  let ?co = "typed_to_document fields_add_results"
  let ?args = "Some [(''A'', JNumber 4), (''B'', JNumber 6)]"
  have h1: "?ci ?args (inputSchema add_tool) = (\<lparr>add_A = 4, add_B = 6\<rparr>, None)"
    by (simp add: document_to_typed_def add_tool_def add_args_schema_def populate_add_args_def
        number_field_def)
  have h2: "handler add_tool () \<lparr>add_A = 4, add_B = 6\<rparr> (0::nat) = (Returns \<lparr>add_Sum = 10\<rparr>, 0)"
    by (simp add: add_tool_def add_handler_def)
  have h3: "?co \<lparr>add_Sum = 10\<rparr> (outputSchema add_tool) = (Some [(''Sum'', JNumber 10)], None)"
    by (simp add: typed_to_document_def add_tool_def add_results_schema_def fields_add_results_def)
  have "Run ?ci ?co add_tool () () ?args (0::nat) =
          (Returns (?co \<lparr>add_Sum = 10\<rparr> (outputSchema add_tool)), 0)"
    by (rule Run_converts_invokes_converts
          [where ConvertIn = ?ci and args = ?args and f = add_tool and ConvertOut = ?co,
           THEN conjunct2, THEN conjunct1, rule_format, OF conjI [OF h1 h2]])
  with h1 h2 h3 show ?thesis by simp
qed

text \<open>
  C7. \<open>NewFunctionTool\<close> returns no error exactly when the resolution of the input
  schema and the resolution of the output schema both return none, and it returns a tool
  exactly when it returns no error. If the input resolution fails, the result is the nil
  tool and that error wrapped as a failure to infer the input schema; if the input
  resolution succeeds and the output resolution fails, the result is the nil tool and
  that error wrapped as a failure to infer the output schema.
\<close>

theorem NewFunctionTool_succeeds_iff:
  "(snd (NewFunctionTool Resolve ForArgs ForResults config h) = None \<longleftrightarrow>
      snd (resolvedSchema Resolve ForArgs (InputSchema config)) = None \<and>
      snd (resolvedSchema Resolve ForResults (OutputSchema config)) = None) \<and>
   (snd (NewFunctionTool Resolve ForArgs ForResults config h) = None \<longleftrightarrow>
      fst (NewFunctionTool Resolve ForArgs ForResults config h) \<noteq> None) \<and>
   (\<forall>e. snd (resolvedSchema Resolve ForArgs (InputSchema config)) = Some e \<longrightarrow>
      NewFunctionTool Resolve ForArgs ForResults config h =
        (None, Some (Wrapped ''failed to infer input schema'' e))) \<and>
   (\<forall>e. snd (resolvedSchema Resolve ForArgs (InputSchema config)) = None \<and>
        snd (resolvedSchema Resolve ForResults (OutputSchema config)) = Some e \<longrightarrow>
      NewFunctionTool Resolve ForArgs ForResults config h =
        (None, Some (Wrapped ''failed to infer output schema'' e)))"
  by (auto simp: NewFunctionTool_def split: prod.splits option.splits)

theorem NewFunctionTool_succeeds_iff_witness:
  "snd (resolvedSchema Resolve_any (None, Some (External ''unsupported type''))
          (InputSchema add_config)) = Some (External ''unsupported type'') \<and>
   NewFunctionTool Resolve_any (None, Some (External ''unsupported type''))
       (Some add_results_schema, None) add_config add_handler =
     (None, Some (Wrapped ''failed to infer input schema'' (External ''unsupported type'')))"
proof -
  have h: "snd (resolvedSchema Resolve_any (None, Some (External ''unsupported type''))
          (InputSchema add_config)) = Some (External ''unsupported type'')"
    by (simp add: resolvedSchema_def add_config_def)
  show ?thesis
    using h NewFunctionTool_succeeds_iff
      [where Resolve = Resolve_any and ForArgs = "(None, Some (External ''unsupported type''))"
         and config = add_config and ForResults = "(Some add_results_schema, None)"
         and h = add_handler,
       THEN conjunct2, THEN conjunct2, THEN conjunct1, rule_format, OF h]
    by (rule conjI)
qed

text \<open>
  C8. An override that resolves is adopted as it is: \<open>resolvedSchema\<close> returns the
  resolution of the override whatever the inference for the type would give (\<open>For\<close> is
  arbitrary, it may fail or describe another shape). A tool whose config carries a
  resolvable output override is constructed, whatever \<open>ForResults\<close> is, its output schema
  is the resolved override, and the response schema of its declaration is the schema
  document of the resolved override.
\<close>

theorem override_adopted_without_check:
  assumes "Resolve (Some s) = (Some rs, None)"
    and "snd (resolvedSchema Resolve ForArgs (InputSchema config)) = None"
    and "OutputSchema config = Some s"
  shows "resolvedSchema Resolve For (Some s) = (Some rs, None) \<and>
         (\<exists>f d. NewFunctionTool Resolve ForArgs ForResults config h = (Some f, None) \<and>
                outputSchema f = Some rs \<and>
                FunctionTool_FunctionDeclaration Schema f = Some d \<and>
                ResponseJsonSchema d = Some (Schema rs))"
proof
  show "resolvedSchema Resolve For (Some s) = (Some rs, None)"
    using assms(1) by (simp add: resolvedSchema_def)
next
  obtain i where i: "resolvedSchema Resolve ForArgs (InputSchema config) = (i, None)"
    using assms(2) by (cases "resolvedSchema Resolve ForArgs (InputSchema config)") simp
  have o: "resolvedSchema Resolve ForResults (OutputSchema config) = (Some rs, None)"
    using assms(1,3) by (simp add: resolvedSchema_def)
  let ?f = "\<lparr>cfg = config, inputSchema = i, outputSchema = Some rs, handler = h\<rparr>"
  have "NewFunctionTool Resolve ForArgs ForResults config h = (Some ?f, None)"
    by (simp add: NewFunctionTool_def i o)
  moreover have "outputSchema ?f = Some rs" by simp
  moreover have "\<exists>d. FunctionTool_FunctionDeclaration Schema ?f = Some d \<and>
                   ResponseJsonSchema d = Some (Schema rs)"
    by (simp add: FunctionTool_FunctionDeclaration_def Let_def split: option.splits)
  ultimately show "\<exists>f d. NewFunctionTool Resolve ForArgs ForResults config h = (Some f, None) \<and>
                outputSchema f = Some rs \<and>
                FunctionTool_FunctionDeclaration Schema f = Some d \<and>
                ResponseJsonSchema d = Some (Schema rs)"
    by blast
qed

theorem override_adopted_without_check_witness:
  "Resolve_any (Some mismatched_schema) = (Some mismatched_schema, None) \<and>
   snd (resolvedSchema Resolve_any (Some add_args_schema, None)
          (InputSchema (add_config\<lparr>OutputSchema := Some mismatched_schema\<rparr>))) = None \<and>
   OutputSchema (add_config\<lparr>OutputSchema := Some mismatched_schema\<rparr>) = Some mismatched_schema \<and>
   mismatched_schema \<noteq> add_results_schema \<and>
   (\<exists>f d. NewFunctionTool Resolve_any (Some add_args_schema, None) (Some add_results_schema, None)
            (add_config\<lparr>OutputSchema := Some mismatched_schema\<rparr>) add_handler = (Some f, None) \<and>
          outputSchema f = Some mismatched_schema \<and>
          FunctionTool_FunctionDeclaration (\<lambda>r. r) f = Some d \<and>
          ResponseJsonSchema d = Some mismatched_schema)"
proof -
  have h1: "Resolve_any (Some mismatched_schema) = (Some mismatched_schema, None)"
    by (simp add: Resolve_any_def)
  have h2: "snd (resolvedSchema Resolve_any (Some add_args_schema, None)
          (InputSchema (add_config\<lparr>OutputSchema := Some mismatched_schema\<rparr>))) = None"
    by (simp add: resolvedSchema_def Resolve_any_def add_config_def)
  have h3: "OutputSchema (add_config\<lparr>OutputSchema := Some mismatched_schema\<rparr>) =
              Some mismatched_schema"
    by simp
  have h4: "mismatched_schema \<noteq> add_results_schema"
    by (simp add: mismatched_schema_def add_results_schema_def)
  show ?thesis
    using h1 h2 h3 h4
      override_adopted_without_check [OF h1 h2 h3, where Schema = "\<lambda>r. r" and h = add_handler
        and ForResults = "(Some add_results_schema, None)", THEN conjunct2]
    by blast
qed

text \<open>
  C9. If the conversion of the args document fails, \<open>Run\<close> returns the nil document and
  the conversion error, and the handler is not invoked: the world is left as it was, and
  the result is the same whatever handler the tool wraps.
\<close>

theorem Run_conversion_failure:
  assumes "ConvertIn args (inputSchema f) = (x, Some e)"
  shows "Run ConvertIn ConvertOut f ctx tc args w = (Returns (None, Some e), w) \<and>
         Run ConvertIn ConvertOut (f\<lparr>handler := h\<rparr>) ctx tc args w = (Returns (None, Some e), w)"
  using assms by (simp add: Run_def)

theorem Run_conversion_failure_witness:
  "document_to_typed populate_add_args zero_add_args (Some [(''A'', JNumber 2)])
       (inputSchema add_tool) = (zero_add_args, Some (ConversionError ''B'')) \<and>
   Run (document_to_typed populate_add_args zero_add_args) (typed_to_document fields_add_results)
       add_tool () () (Some [(''A'', JNumber 2)]) (7::nat) =
     (Returns (None, Some (ConversionError ''B'')), 7) \<and>
   Run (document_to_typed populate_add_args zero_add_args) (typed_to_document fields_add_results)
       (add_tool\<lparr>handler := div_handler\<rparr>) () () (Some [(''A'', JNumber 2)]) (7::nat) =
     (Returns (None, Some (ConversionError ''B'')), 7)"
proof -
  have h: "document_to_typed populate_add_args zero_add_args (Some [(''A'', JNumber 2)])
       (inputSchema add_tool) = (zero_add_args, Some (ConversionError ''B''))"
    by (simp add: document_to_typed_def add_tool_def add_args_schema_def)
  show ?thesis
    using h Run_conversion_failure
      [where ConvertIn = "document_to_typed populate_add_args zero_add_args"
         and args = "Some [(''A'', JNumber 2)]" and f = add_tool
         and ConvertOut = "typed_to_document fields_add_results" and h = div_handler
         and ctx = "()" and tc = "()" and w = "7::nat", OF h]
    by blast
qed

text \<open>
  C10. For a resolver that follows Go's convention (a nil error comes with a non-nil
  resolved schema), a tool returned by \<open>NewFunctionTool\<close> has both resolved schemas
  non-nil, and its \<open>FunctionDeclaration\<close> is the non-nil declaration carrying the tool's
  name, its description, the parameters schema and the response schema.
\<close>

theorem constructed_tool_has_both_schemas:
  assumes "\<forall>s. snd (Resolve s) = None \<longrightarrow> fst (Resolve s) \<noteq> None"
    and "NewFunctionTool Resolve ForArgs ForResults config h = (Some f, None)"
  shows "\<exists>i o'. inputSchema f = Some i \<and> outputSchema f = Some o' \<and>
           FunctionTool_FunctionDeclaration Schema f =
             Some \<lparr>decl_Name = Name config, decl_Description = Description config,
                   ParametersJsonSchema = Some (Schema i),
                   ResponseJsonSchema = Some (Schema o')\<rparr>"
proof -
  have nonnil: "\<And>For ov a. resolvedSchema Resolve For ov = (a, None) \<Longrightarrow> a \<noteq> None"
  proof -
    fix For :: "'a option \<times> error option" and ov a
    assume r: "resolvedSchema Resolve For ov = (a, None)"
    then obtain s where "Resolve s = (a, None)"
      by (cases For) (auto simp: resolvedSchema_def split: if_splits)
    with assms(1) [rule_format, of s] show "a \<noteq> None" by simp
  qed
  from assms(2) obtain i o' where
    i: "resolvedSchema Resolve ForArgs (InputSchema config) = (i, None)" and
    o: "resolvedSchema Resolve ForResults (OutputSchema config) = (o', None)" and
    f: "f = \<lparr>cfg = config, inputSchema = i, outputSchema = o', handler = h\<rparr>"
    by (auto simp: NewFunctionTool_def split: prod.splits option.splits)
  from nonnil [OF i] nonnil [OF o] obtain i' o'' where "i = Some i'" "o' = Some o''" by blast
  with f show ?thesis
    by (simp add: FunctionTool_FunctionDeclaration_def FunctionTool_Name_def
        FunctionTool_Description_def)
qed

theorem constructed_tool_has_both_schemas_witness:
  "NewFunctionTool Resolve_any (Some add_args_schema, None) (Some add_results_schema, None)
     add_config add_handler = (Some add_tool, None) \<and>
   (\<exists>i o'. inputSchema add_tool = Some i \<and> outputSchema add_tool = Some o' \<and>
      FunctionTool_FunctionDeclaration (\<lambda>r. r) add_tool =
        Some \<lparr>decl_Name = Name add_config, decl_Description = Description add_config,
              ParametersJsonSchema = Some i, ResponseJsonSchema = Some o'\<rparr>)"
proof -
  have h1: "\<forall>s. snd (Resolve_any s) = None \<longrightarrow> fst (Resolve_any s) \<noteq> None"
    by (simp add: Resolve_any_def split: option.splits)
  have h2: "NewFunctionTool Resolve_any (Some add_args_schema, None)
              (Some add_results_schema, None) add_config add_handler = (Some add_tool, None)"
    by (simp add: NewFunctionTool_def resolvedSchema_def Resolve_any_def add_config_def
        add_tool_def)
  show ?thesis
    using h2 constructed_tool_has_both_schemas [OF h1 h2, where Schema = "\<lambda>r. r"]
    by blast
qed

section \<open>Properties of the request builder\<close>

text \<open>
  C4. For every request, \<open>AppendTools\<close> called with one nil tool, or with one tool
  whose name is empty, returns a registration error and leaves the registered tools and
  the declared-tool list as they were.
\<close>

theorem AppendTools_rejects_nil_and_nameless:
  "snd (AppendTools r [None]) = Some (ToolWithoutName 0) \<and>
   registry (fst (AppendTools r [None])) = registry r \<and>
   declared (fst (AppendTools r [None])) = declared r \<and>
   snd (AppendTools r [Some (t\<lparr>tool_Name := []\<rparr>)]) = Some (ToolWithoutName 0) \<and>
   registry (fst (AppendTools r [Some (t\<lparr>tool_Name := []\<rparr>)])) = registry r \<and>
   declared (fst (AppendTools r [Some (t\<lparr>tool_Name := []\<rparr>)])) = declared r"
  by (simp add: AppendTools_def registry_def declared_def)

subsection \<open>Instructions\<close>

lemma Join_Cons: "Join (x # xs) sep = (if xs = [] then x else x @ sep @ Join xs sep)"
  by (cases xs) simp_all

lemma foldl_appended_text:
  "t \<noteq> [] \<Longrightarrow> foldl appended_text t xs = (if xs = [] then t else t @ blank_line @ Join xs blank_line)"
proof (induction xs arbitrary: t)
  case Nil
  then show ?case by simp
next
  case (Cons x xs)
  have "appended_text t x = t @ blank_line @ x" using Cons.prems by (simp add: appended_text_def)
  moreover have "t @ blank_line @ x \<noteq> []" using Cons.prems by simp
  ultimately show ?case using Cons.IH [of "t @ blank_line @ x"]
    by (simp add: Join_Cons)
qed

lemma current_text_set [simp]: "current_text (set_SystemInstruction r gc t) = t"
  by (simp add: current_text_def system_text_def set_SystemInstruction_def NewContentFromText_def)

lemma set_set [simp]:
  "set_SystemInstruction (set_SystemInstruction r gc t)
      (gc\<lparr>SystemInstruction := Some (NewContentFromText t [])\<rparr>) t' = set_SystemInstruction r gc t'"
  by (simp add: set_SystemInstruction_def)

lemma AppendInstructions_after_set:
  "xs \<noteq> [] \<Longrightarrow> AppendInstructions (set_SystemInstruction r gc t) xs =
     Returns (set_SystemInstruction r gc (appended_text t (Join xs blank_line)))"
  by (simp add: AppendInstructions_def set_SystemInstruction_def NewContentFromText_def appended_text_def)

lemma each_after_set:
  "AppendInstructions_each (set_SystemInstruction r gc t) xs =
     Returns (set_SystemInstruction r gc (foldl appended_text t xs))"
proof (induction xs arbitrary: t)
  case Nil
  then show ?case by simp
next
  case (Cons x xs)
  have "AppendInstructions (set_SystemInstruction r gc t) [x] =
          Returns (set_SystemInstruction r gc (appended_text t x))"
    using AppendInstructions_after_set [of "[x]" r gc t] by simp
  then show ?case using Cons.IH by simp
qed

lemma AppendInstructions_cases:
  assumes "GenerateConfig r = Some gc" and "xs \<noteq> []"
  shows "AppendInstructions r xs = Panics nil_dereference \<or>
         AppendInstructions r xs =
           Returns (set_SystemInstruction r gc (appended_text (current_text r) (Join xs blank_line)))"
  using assms
  by (auto simp: AppendInstructions_def current_text_def system_text_def appended_text_def Let_def
      split: option.splits list.splits)

lemma AppendInstructions_panic_indep:
  assumes "xs \<noteq> []" and "ys \<noteq> []"
  shows "AppendInstructions r xs = Panics p \<longleftrightarrow> AppendInstructions r ys = Panics p"
  using assms
  by (auto simp: AppendInstructions_def Let_def split: option.splits list.splits)

lemma foldl_appended_text_start:
  assumes "c \<noteq> [] \<or> rest = [] \<or> x \<noteq> []"
  shows "foldl appended_text (appended_text c x) rest = appended_text c (Join (x # rest) blank_line)"
proof (cases "rest = []")
  case True
  then show ?thesis by simp
next
  case False
  with assms have ne: "appended_text c x \<noteq> []" by (auto simp: appended_text_def)
  show ?thesis
    using False foldl_appended_text [OF ne, of rest]
    by (simp add: Join_Cons appended_text_def)
qed

text \<open>
  C3, as amended. For a request that has a generation configuration, calling
  \<open>AppendInstructions\<close> once per instruction, in order, gives the same result as calling
  it once with all the instructions, provided the request already has a non-empty system
  instruction text, or there are fewer than two instructions, or the first instruction is
  not the empty string. On a request with an empty generation configuration,
  \<open>AppendInstructions("A")\<close> followed by \<open>AppendInstructions("B")\<close> and the single call
  \<open>AppendInstructions("A","B")\<close> both leave the system instruction text \<open>A\<close>, blank line,
  \<open>B\<close>.
\<close>

theorem AppendInstructions_each_equals_single:
  "(GenerateConfig r \<noteq> None \<and> (current_text r \<noteq> [] \<or> length xs < 2 \<or> hd xs \<noteq> []) \<longrightarrow>
      AppendInstructions_each r xs = AppendInstructions r xs) \<and>
   map_outcome system_text (AppendInstructions_each configured_request [''A'', ''B'']) =
     Returns (Some (''A'' @ blank_line @ ''B'')) \<and>
   map_outcome system_text (AppendInstructions configured_request [''A'', ''B'']) =
     Returns (Some (''A'' @ blank_line @ ''B''))"
proof (intro conjI impI)
  assume a: "GenerateConfig r \<noteq> None \<and> (current_text r \<noteq> [] \<or> length xs < 2 \<or> hd xs \<noteq> [])"
  then obtain gc where gc: "GenerateConfig r = Some gc" by blast
  show "AppendInstructions_each r xs = AppendInstructions r xs"
  proof (cases xs)
    case Nil
    then show ?thesis by (simp add: AppendInstructions_def)
  next
    case (Cons x rest)
    from a Cons have cond: "current_text r \<noteq> [] \<or> rest = [] \<or> x \<noteq> []" by auto
    consider (panic) "AppendInstructions r [x] = Panics nil_dereference"
      | (ret) "AppendInstructions r [x] =
                 Returns (set_SystemInstruction r gc (appended_text (current_text r) x))"
      using AppendInstructions_cases [OF gc, of "[x]"] by auto
    then show ?thesis
    proof cases
      case panic
      then have "AppendInstructions r xs = Panics nil_dereference"
        using AppendInstructions_panic_indep [of "[x]" xs r nil_dereference] Cons by simp
      with panic Cons show ?thesis by simp
    next
      case ret
      have "AppendInstructions r xs \<noteq> Panics nil_dereference"
        using AppendInstructions_panic_indep [of "[x]" xs r nil_dereference] Cons ret by simp
      then have single: "AppendInstructions r xs =
          Returns (set_SystemInstruction r gc
                     (appended_text (current_text r) (Join xs blank_line)))"
        using AppendInstructions_cases [OF gc, of xs] Cons by auto
      have "AppendInstructions_each r xs =
          Returns (set_SystemInstruction r gc
                     (foldl appended_text (appended_text (current_text r) x) rest))"
        using Cons ret by (simp add: each_after_set)
      with single show ?thesis
        using foldl_appended_text_start [OF cond] Cons by simp
    qed
  qed
next
  show "map_outcome system_text (AppendInstructions_each configured_request [''A'', ''B'']) =
     Returns (Some (''A'' @ blank_line @ ''B''))"
    by (simp add: AppendInstructions_def configured_request_def empty_request_def
        set_SystemInstruction_def NewContentFromText_def system_text_def)
next
  show "map_outcome system_text (AppendInstructions configured_request [''A'', ''B'']) =
     Returns (Some (''A'' @ blank_line @ ''B''))"
    by (simp add: AppendInstructions_def configured_request_def empty_request_def
        set_SystemInstruction_def NewContentFromText_def system_text_def)
qed

theorem AppendInstructions_each_equals_single_witness:
  "GenerateConfig configured_request \<noteq> None \<and>
   hd [''A'', ''B'', ''C''] \<noteq> [] \<and>
   AppendInstructions_each configured_request [''A'', ''B'', ''C''] =
     AppendInstructions configured_request [''A'', ''B'', ''C''] \<and>
   map_outcome system_text (AppendInstructions configured_request [''A'', ''B'', ''C'']) =
     Returns (Some (''A'' @ blank_line @ ''B'' @ blank_line @ ''C''))"
proof -
  have h1: "GenerateConfig configured_request \<noteq> None"
    by (simp add: configured_request_def)
  have h2: "hd [''A'', ''B'', ''C''] \<noteq> []" by simp
  have h3: "map_outcome system_text (AppendInstructions configured_request [''A'', ''B'', ''C'']) =
     Returns (Some (''A'' @ blank_line @ ''B'' @ blank_line @ ''C''))"
    by (simp add: AppendInstructions_def configured_request_def empty_request_def
        set_SystemInstruction_def NewContentFromText_def system_text_def)
  have "AppendInstructions_each configured_request [''A'', ''B'', ''C''] =
     AppendInstructions configured_request [''A'', ''B'', ''C'']"
    using AppendInstructions_each_equals_single
      [where r = configured_request and xs = "[''A'', ''B'', ''C'']", THEN conjunct1, rule_format]
      h1 h2 by blast
  with h1 h2 h3 show ?thesis by blast
qed

text \<open>
  The claim as stated fails where the current text is empty and the first instruction is
  the empty string: the method treats an empty current text as absent, so the two calls
  \<open>AppendInstructions("")\<close>, \<open>AppendInstructions("B")\<close> leave the text \<open>B\<close>, and the single
  call \<open>AppendInstructions("","B")\<close> leaves a blank line followed by \<open>B\<close>.
\<close>

theorem AppendInstructions_each_differs_counterexample:
  "map_outcome system_text (AppendInstructions_each configured_request ['''', ''B'']) =
     Returns (Some ''B'') \<and>
   map_outcome system_text (AppendInstructions configured_request ['''', ''B'']) =
     Returns (Some (blank_line @ ''B'')) \<and>
   map_outcome system_text (AppendInstructions_each configured_request ['''', ''B'']) \<noteq>
   map_outcome system_text (AppendInstructions configured_request ['''', ''B''])"
  by (simp add: AppendInstructions_def configured_request_def empty_request_def
      set_SystemInstruction_def NewContentFromText_def system_text_def blank_line_def)

text \<open>
  On the zero request the method dereferences the nil generation configuration.
\<close>

lemma AppendInstructions_empty_request_panics:
  "AppendInstructions empty_request [''A''] = Panics nil_dereference"
  by (simp add: AppendInstructions_def empty_request_def)

subsection \<open>The loop of \<open>AppendTools\<close>\<close>

lemma registry_register_tool [simp]:
  "registry (register_tool r t) = (registry r)(tool_Name t \<mapsto> t)"
  by (simp add: register_tool_def registry_def Let_def split: option.splits)

lemma declared_register_tool [simp]:
  "declared (register_tool r t) = declared r @ contributed t"
  by (simp add: register_tool_def declared_def contributed_def Let_def split: option.splits)

lemma names_append [simp]: "names (xs @ ys) = names xs @ names ys"
  by (induction xs rule: names.induct) simp_all

lemma declarations_append [simp]: "declarations (xs @ ys) = declarations xs @ declarations ys"
  by (induction xs rule: declarations.induct) simp_all

lemma loop_success_valid:
  "AppendTools_loop r i ts = (r', None) \<Longrightarrow>
     None \<notin> set ts \<and> [] \<notin> set (names ts) \<and> distinct (names ts) \<and>
     set (names ts) \<inter> dom (registry r) = {}"
proof (induction r i ts rule: AppendTools_loop.induct)
  case (1 r i)
  then show ?case by simp
next
  case (2 r i tools)
  then show ?case by simp
next
  case (3 r i tool tools)
  from "3.prems" have ne: "tool_Name tool \<noteq> []" and fresh: "registry r (tool_Name tool) = None"
    and rec: "AppendTools_loop (register_tool r tool) (Suc i) tools = (r', None)"
    by (auto split: if_splits option.splits)
  from "3.IH" [OF ne fresh rec] ne fresh show ?case by auto
qed

lemma loop_success_effect:
  "AppendTools_loop r i ts = (r', None) \<Longrightarrow>
     dom (registry r') = dom (registry r) \<union> set (names ts) \<and>
     declared r' = declared r @ declarations ts \<and>
     (\<forall>t. Some t \<in> set ts \<longrightarrow> registry r' (tool_Name t) = Some t) \<and>
     (\<forall>n. n \<notin> set (names ts) \<longrightarrow> registry r' n = registry r n)"
proof (induction r i ts rule: AppendTools_loop.induct)
  case (1 r i)
  then show ?case by simp
next
  case (2 r i tools)
  then show ?case by simp
next
  case (3 r i tool tools)
  from "3.prems" have ne: "tool_Name tool \<noteq> []" and fresh: "registry r (tool_Name tool) = None"
    and rec: "AppendTools_loop (register_tool r tool) (Suc i) tools = (r', None)"
    by (auto split: if_splits option.splits)
  note ih = "3.IH" [OF ne fresh rec]
  from loop_success_valid [OF "3.prems"] have notin: "tool_Name tool \<notin> set (names tools)"
    by simp
  from ih notin show ?case by auto
qed

lemma loop_error_prefix:
  "AppendTools_loop r i ts = (r', Some e) \<Longrightarrow>
     \<exists>k<length ts. AppendTools_loop r i (take k ts) = (r', None) \<and>
       (case ts ! k of
          None \<Rightarrow> e = ToolWithoutName (i + k)
        | Some t \<Rightarrow>
            if tool_Name t = [] then e = ToolWithoutName (i + k)
            else registry r' (tool_Name t) \<noteq> None \<and> e = DuplicateTool (i + k) (tool_Name t))"
proof (induction r i ts rule: AppendTools_loop.induct)
  case (1 r i)
  then show ?case by simp
next
  case (2 r i tools)
  then show ?case by (intro exI [of _ 0]) simp
next
  case (3 r i tool tools)
  show ?case
  proof (cases "tool_Name tool = [] \<or> registry r (tool_Name tool) \<noteq> None")
    case True
    with "3.prems" show ?thesis by (intro exI [of _ 0]) (auto split: if_splits option.splits)
  next
    case False
    then have ne: "tool_Name tool \<noteq> []" and fresh: "registry r (tool_Name tool) = None" by auto
    with "3.prems" have rec: "AppendTools_loop (register_tool r tool) (Suc i) tools = (r', Some e)"
      by simp
    from "3.IH" [OF ne fresh rec] obtain k where k: "k < length tools"
      "AppendTools_loop (register_tool r tool) (Suc i) (take k tools) = (r', None)"
      "(case tools ! k of
          None \<Rightarrow> e = ToolWithoutName (Suc i + k)
        | Some t \<Rightarrow>
            if tool_Name t = [] then e = ToolWithoutName (Suc i + k)
            else registry r' (tool_Name t) \<noteq> None \<and> e = DuplicateTool (Suc i + k) (tool_Name t))"
      by blast
    show ?thesis
      using k ne fresh by (intro exI [of _ "Suc k"]) (auto split: option.splits)
  qed
qed

lemma name_in_names: "Some t \<in> set ts \<Longrightarrow> tool_Name t \<in> set (names ts)"
  by (induction ts rule: names.induct) auto

lemma name_not_earlier:
  assumes "distinct (names ts)" and "k < length ts" and "ts ! k = Some t"
  shows "tool_Name t \<notin> set (names (take k ts))"
proof -
  have "ts = take k ts @ Some t # drop (Suc k) ts"
    using assms(2,3) id_take_nth_drop [of k ts] by simp
  then have "names ts = names (take k ts) @ tool_Name t # names (drop (Suc k) ts)"
    using names_append [of "take k ts" "Some t # drop (Suc k) ts"] by simp
  with assms(1) show ?thesis by auto
qed

lemma valid_not_rejected:
  assumes "None \<notin> set ts" and "[] \<notin> set (names ts)" and "distinct (names ts)"
    and "set (names ts) \<inter> dom (registry r) = {}" and "j < length ts"
  shows "\<not> rejected_at r ts j"
proof -
  from assms(1,5) obtain t where t: "ts ! j = Some t"
    by (metis nth_mem option.exhaust)
  then have mem: "tool_Name t \<in> set (names ts)"
    using assms(5) name_in_names nth_mem by metis
  from mem assms(2) have "tool_Name t \<noteq> []" by auto
  moreover from mem assms(4) have "tool_Name t \<notin> dom (registry r)" by auto
  moreover have "tool_Name t \<notin> set (names (take j ts))"
    using name_not_earlier [OF assms(3,5) t] .
  ultimately show ?thesis by (simp add: rejected_at_def t)
qed

lemma rejected_at_take:
  "j < k \<Longrightarrow> k \<le> length ts \<Longrightarrow> rejected_at r (take k ts) j = rejected_at r ts j"
  by (simp add: rejected_at_def min_absorb1 split: option.splits)

lemma AppendTools_as_loop:
  "\<exists>r0. (\<forall>ts. AppendTools r ts = AppendTools_loop r0 0 ts) \<and>
        registry r0 = registry r \<and> declared r0 = declared r"
  by (intro exI [of _ "if Tools r = None then r\<lparr>Tools := Some Map.empty\<rparr> else r"])
     (simp add: AppendTools_def registry_def declared_def)

lemma AppendTools_error_prefix:
  assumes "AppendTools r tools = (r', Some e)"
  shows "\<exists>k<length tools.
         rejected_at r tools k \<and> (\<forall>j<k. \<not> rejected_at r tools j) \<and>
         e = rejection_error tools k \<and>
         AppendTools r (take k tools) = (r', None) \<and>
         dom (registry r') = dom (registry r) \<union> set (names (take k tools)) \<and>
         (\<forall>j<k. \<exists>t. tools ! j = Some t \<and> registry r' (tool_Name t) = Some t) \<and>
         (\<forall>n. n \<notin> set (names (take k tools)) \<longrightarrow> registry r' n = registry r n) \<and>
         declared r' = declared r @ declarations (take k tools)"
proof -
  obtain r0 where r0: "\<And>ts. AppendTools r ts = AppendTools_loop r0 0 ts"
    and reg0: "registry r0 = registry r" and decl0: "declared r0 = declared r"
    using AppendTools_as_loop [of r] by blast
  from assms have "AppendTools_loop r0 0 tools = (r', Some e)" by (simp add: r0)
  from loop_error_prefix [OF this] obtain k where k: "k < length tools"
    and pre: "AppendTools_loop r0 0 (take k tools) = (r', None)"
    and at: "(case tools ! k of
          None \<Rightarrow> e = ToolWithoutName (0 + k)
        | Some t \<Rightarrow>
            if tool_Name t = [] then e = ToolWithoutName (0 + k)
            else registry r' (tool_Name t) \<noteq> None \<and> e = DuplicateTool (0 + k) (tool_Name t))"
    by blast
  have v1: "None \<notin> set (take k tools)" and v2: "[] \<notin> set (names (take k tools))"
    and v3: "distinct (names (take k tools))"
    and v4: "set (names (take k tools)) \<inter> dom (registry r) = {}"
    using loop_success_valid [OF pre] reg0 by simp_all
  have e1: "dom (registry r') = dom (registry r) \<union> set (names (take k tools))"
    and e2: "declared r' = declared r @ declarations (take k tools)"
    and e3: "\<forall>t. Some t \<in> set (take k tools) \<longrightarrow> registry r' (tool_Name t) = Some t"
    and e4: "\<forall>n. n \<notin> set (names (take k tools)) \<longrightarrow> registry r' n = registry r n"
    using loop_success_effect [OF pre] reg0 decl0 by simp_all
  have rej: "rejected_at r tools k"
  proof (cases "tools ! k")
    case None
    then show ?thesis by (simp add: rejected_at_def)
  next
    case (Some t)
    show ?thesis
    proof (cases "tool_Name t = []")
      case True
      with Some show ?thesis by (simp add: rejected_at_def)
    next
      case False
      with at Some have "tool_Name t \<in> dom (registry r')" by auto
      with e1 have "tool_Name t \<in> dom (registry r) \<or> tool_Name t \<in> set (names (take k tools))"
        by blast
      with Some show ?thesis by (simp add: rejected_at_def)
    qed
  qed
  have err: "e = rejection_error tools k"
    using at by (cases "tools ! k") (simp_all add: rejection_error_def split: if_splits)
  have before: "\<forall>j<k. \<not> rejected_at r tools j"
  proof (intro allI impI)
    fix j assume j: "j < k"
    with k have jl: "j < length (take k tools)" by simp
    have "\<not> rejected_at r (take k tools) j"
      by (rule valid_not_rejected [OF v1 v2 v3 v4 jl])
    moreover have "rejected_at r (take k tools) j = rejected_at r tools j"
      using j k by (intro rejected_at_take) simp_all
    ultimately show "\<not> rejected_at r tools j" by simp
  qed
  have kept: "\<forall>j<k. \<exists>t. tools ! j = Some t \<and> registry r' (tool_Name t) = Some t"
  proof (intro allI impI)
    fix j assume j: "j < k"
    with k have jl: "j < length (take k tools)" by simp
    have "take k tools ! j = tools ! j" using j by simp
    with nth_mem [OF jl] have mem: "tools ! j \<in> set (take k tools)" by simp
    with v1 obtain t where t: "tools ! j = Some t" by (cases "tools ! j") auto
    with mem e3 have "registry r' (tool_Name t) = Some t" by simp
    with t show "\<exists>t. tools ! j = Some t \<and> registry r' (tool_Name t) = Some t" by blast
  qed
  have pre': "AppendTools r (take k tools) = (r', None)" using pre by (simp add: r0)
  from k rej before err pre' e1 kept e4 e2 show ?thesis by blast
qed

lemma AppendTools_rejected_error:
  assumes "k < length tools" and "rejected_at r tools k"
  shows "snd (AppendTools r tools) \<noteq> None"
proof
  obtain r0 where r0: "\<And>ts. AppendTools r ts = AppendTools_loop r0 0 ts"
    and reg0: "registry r0 = registry r"
    using AppendTools_as_loop [of r] by blast
  assume "snd (AppendTools r tools) = None"
  then obtain r'' where ok: "AppendTools_loop r0 0 tools = (r'', None)"
    by (cases "AppendTools r tools") (simp add: r0)
  have v1: "None \<notin> set tools" and v2: "[] \<notin> set (names tools)"
    and v3: "distinct (names tools)"
    and v4: "set (names tools) \<inter> dom (registry r) = {}"
    using loop_success_valid [OF ok] reg0 by simp_all
  from valid_not_rejected [OF v1 v2 v3 v4 assms(1)] assms(2) show False by simp
qed

lemma same_name_batch_result:
  "snd (AppendTools empty_request same_name_batch) = Some (DuplicateTool 1 ''add'')"
  "registry (fst (AppendTools empty_request same_name_batch)) ''add'' = Some add_Tool"
  "declared (fst (AppendTools empty_request same_name_batch)) = contributed add_Tool"
  by (simp_all add: same_name_batch_def AppendTools_def empty_request_def other_add_Tool_def
      add_Tool_def as_Tool_def register_tool_def registry_def declared_def contributed_def
      FunctionTool_Name_def FunctionTool_FunctionDeclaration_def add_tool_def add_config_def)

lemma add_Tool_contributes: "contributed add_Tool \<noteq> []"
  by (simp add: contributed_def add_Tool_def as_Tool_def FunctionTool_FunctionDeclaration_def
      Let_def add_tool_def)

lemma empty_request_holds_nothing:
  "registry empty_request n = None" "declared empty_request = []"
  by (simp_all add: empty_request_def registry_def declared_def)

lemma registry_after_nil_call: "registry (fst (AppendTools r [None])) = registry r"
  by (simp add: AppendTools_def registry_def)

subsection \<open>Rejected batches\<close>

text \<open>
  C1, as amended. \<open>AppendTools\<close> is not atomic: it registers the tools of the batch in
  order and stops at the first one that is nil, has an empty name, or has a name already
  in the registry or used earlier in the batch. If the call returns an error, the error
  is the one for that first rejected tool, at some index \<open>k\<close>; the request is left exactly
  as the successful call with the \<open>k\<close> tools before it leaves it: those tools are in the
  registry under their names, every other name of the registry is as before, and the
  declared-tool list is the former one followed by their declarations. With \<open>k = 0\<close>
  the registry and the declared-tool list are unchanged. A batch that holds a tool to
  reject makes the call return an error.
\<close>

theorem AppendTools_error_keeps_prefix:
  "(AppendTools r tools = (r', Some e) \<longrightarrow>
      (\<exists>k<length tools.
         rejected_at r tools k \<and> (\<forall>j<k. \<not> rejected_at r tools j) \<and>
         e = rejection_error tools k \<and>
         AppendTools r (take k tools) = (r', None) \<and>
         dom (registry r') = dom (registry r) \<union> set (names (take k tools)) \<and>
         (\<forall>j<k. \<exists>t. tools ! j = Some t \<and> registry r' (tool_Name t) = Some t) \<and>
         (\<forall>n. n \<notin> set (names (take k tools)) \<longrightarrow> registry r' n = registry r n) \<and>
         declared r' = declared r @ declarations (take k tools))) \<and>
   ((\<exists>k<length tools. rejected_at r tools k) \<longrightarrow> snd (AppendTools r tools) \<noteq> None)"
proof (intro conjI impI)
  assume "AppendTools r tools = (r', Some e)"
  then show "\<exists>k<length tools.
         rejected_at r tools k \<and> (\<forall>j<k. \<not> rejected_at r tools j) \<and>
         e = rejection_error tools k \<and>
         AppendTools r (take k tools) = (r', None) \<and>
         dom (registry r') = dom (registry r) \<union> set (names (take k tools)) \<and>
         (\<forall>j<k. \<exists>t. tools ! j = Some t \<and> registry r' (tool_Name t) = Some t) \<and>
         (\<forall>n. n \<notin> set (names (take k tools)) \<longrightarrow> registry r' n = registry r n) \<and>
         declared r' = declared r @ declarations (take k tools)"
    by (rule AppendTools_error_prefix)
next
  assume "\<exists>k<length tools. rejected_at r tools k"
  then obtain k where "k < length tools" "rejected_at r tools k" by blast
  then show "snd (AppendTools r tools) \<noteq> None" by (rule AppendTools_rejected_error)
qed

theorem AppendTools_error_keeps_prefix_witness:
  "AppendTools empty_request same_name_batch =
     (fst (AppendTools empty_request same_name_batch), Some (DuplicateTool 1 ''add'')) \<and>
   registry (fst (AppendTools empty_request same_name_batch)) ''add'' = Some add_Tool \<and>
   (\<exists>k<length same_name_batch.
      rejected_at empty_request same_name_batch k \<and>
      (\<forall>j<k. \<not> rejected_at empty_request same_name_batch j) \<and>
      DuplicateTool 1 ''add'' = rejection_error same_name_batch k \<and>
      AppendTools empty_request (take k same_name_batch) =
        (fst (AppendTools empty_request same_name_batch), None) \<and>
      dom (registry (fst (AppendTools empty_request same_name_batch))) =
        dom (registry (empty_request :: schema LLMRequest)) \<union> set (names (take k same_name_batch)) \<and>
      (\<forall>j<k. \<exists>t. same_name_batch ! j = Some t \<and>
         registry (fst (AppendTools empty_request same_name_batch)) (tool_Name t) = Some t) \<and>
      (\<forall>n. n \<notin> set (names (take k same_name_batch)) \<longrightarrow>
         registry (fst (AppendTools empty_request same_name_batch)) n =
           registry empty_request n) \<and>
      declared (fst (AppendTools empty_request same_name_batch)) =
        declared empty_request @ declarations (take k same_name_batch))"
proof -
  have h: "AppendTools empty_request same_name_batch =
     (fst (AppendTools empty_request same_name_batch), Some (DuplicateTool 1 ''add''))"
    using same_name_batch_result(1) by (simp add: prod_eq_iff)
  note c = AppendTools_error_keeps_prefix
      [where r = empty_request and tools = same_name_batch, THEN conjunct1, THEN mp, OF h]
  show ?thesis
    by (rule conjI [OF h conjI [OF same_name_batch_result(2) c]])
qed

text \<open>
  The claim as stated fails for two tools that share a name in one call on the zero
  request: the call returns the duplicate error for the second tool, and the registry
  then holds the first one, with its declaration in the declared-tool list.
\<close>

theorem AppendTools_not_atomic_counterexample:
  "snd (AppendTools empty_request same_name_batch) = Some (DuplicateTool 1 ''add'') \<and>
   registry (fst (AppendTools empty_request same_name_batch)) ''add'' = Some add_Tool \<and>
   registry empty_request ''add'' = (None :: schema Tool option) \<and>
   declared (fst (AppendTools empty_request same_name_batch)) \<noteq> declared empty_request"
  using same_name_batch_result add_Tool_contributes
  by (simp add: empty_request_holds_nothing)

subsection \<open>The invariant of the registry\<close>

lemma registered_register_tool:
  assumes "registry_invariant r" and "registry r (tool_Name t) = None"
  shows "registered (register_tool r t) = add_mset t (registered r)"
proof -
  have fin: "finite (ran (registry r))"
    using assms(1) by (simp add: registry_invariant_def finite_ran)
  have notin: "t \<notin> ran (registry r)"
  proof
    assume "t \<in> ran (registry r)"
    then obtain k where k: "registry r k = Some t" by (auto simp: ran_def)
    with assms(1) have "tool_Name t = k" by (simp add: registry_invariant_def)
    with k assms(2) show False by simp
  qed
  have "ran ((registry r)(tool_Name t \<mapsto> t)) = insert t (ran (registry r))"
    using assms(2) by (rule ran_map_upd)
  with fin notin show ?thesis by (simp add: registered_def)
qed

lemma registry_invariant_register_tool:
  assumes "registry_invariant r" and "tool_Name t \<noteq> []" and "registry r (tool_Name t) = None"
  shows "registry_invariant (register_tool r t)"
proof -
  have inv: "finite (dom (registry r))"
    "\<And>k u. registry r k = Some u \<Longrightarrow> tool_Name u = k \<and> k \<noteq> []"
    "mset (declared r) = sum_mset (image_mset (\<lambda>t. mset (contributed t)) (registered r))"
    using assms(1) unfolding registry_invariant_def by blast+
  have a: "finite (dom (registry (register_tool r t)))"
    using inv(1) by simp
  have b: "\<forall>k u. registry (register_tool r t) k = Some u \<longrightarrow> tool_Name u = k \<and> k \<noteq> []"
  proof (intro allI impI)
    fix k u assume "registry (register_tool r t) k = Some u"
    then have "(k = tool_Name t \<and> u = t) \<or> registry r k = Some u"
      by (simp split: if_splits)
    then show "tool_Name u = k \<and> k \<noteq> []"
    proof
      assume "k = tool_Name t \<and> u = t"
      with assms(2) show ?thesis by simp
    next
      assume "registry r k = Some u"
      then show ?thesis by (rule inv(2))
    qed
  qed
  have c: "mset (declared (register_tool r t)) =
      sum_mset (image_mset (\<lambda>t. mset (contributed t)) (registered (register_tool r t)))"
    by (simp add: inv(3) registered_register_tool [OF assms(1,3)])
  show ?thesis
    unfolding registry_invariant_def using a b c by blast
qed

lemma registry_invariant_loop:
  "registry_invariant r \<Longrightarrow> registry_invariant (fst (AppendTools_loop r i ts))"
proof (induction r i ts rule: AppendTools_loop.induct)
  case (1 r i)
  then show ?case by simp
next
  case (2 r i tools)
  then show ?case by simp
next
  case (3 r i tool tools)
  show ?case
  proof (cases "tool_Name tool = []")
    case True
    with "3.prems" show ?thesis by simp
  next
    case ne: False
    show ?thesis
    proof (cases "registry r (tool_Name tool)")
      case (Some u)
      with ne "3.prems" show ?thesis by simp
    next
      case None
      have "registry_invariant (register_tool r tool)"
        by (rule registry_invariant_register_tool [OF "3.prems" ne None])
      from "3.IH" [OF ne None this] ne None show ?thesis by simp
    qed
  qed
qed

lemma registry_invariant_cong:
  "registry r0 = registry r \<Longrightarrow> declared r0 = declared r \<Longrightarrow>
   registry_invariant r0 = registry_invariant r"
  unfolding registry_invariant_def registered_def by simp

lemma registry_invariant_AppendTools:
  assumes "registry_invariant r"
  shows "registry_invariant (fst (AppendTools r ts))"
proof -
  obtain r0 where r0: "\<And>ts. AppendTools r ts = AppendTools_loop r0 0 ts"
    and reg0: "registry r0 = registry r" and decl0: "declared r0 = declared r"
    using AppendTools_as_loop [of r] by blast
  have "registry_invariant r0"
    using assms registry_invariant_cong [OF reg0 decl0] by simp
  then have "registry_invariant (fst (AppendTools_loop r0 0 ts))"
    by (rule registry_invariant_loop)
  then show ?thesis by (simp only: r0)
qed

lemma registry_invariant_calls:
  "registry_invariant r \<Longrightarrow> registry_invariant (AppendTools_calls r bs)"
proof (induction bs arbitrary: r)
  case Nil
  then show ?case by simp
next
  case (Cons b bs)
  have "registry_invariant (fst (AppendTools r b))"
    using Cons.prems by (rule registry_invariant_AppendTools)
  then have "registry_invariant (AppendTools_calls (fst (AppendTools r b)) bs)"
    by (rule Cons.IH)
  then show ?case by simp
qed

lemma registry_invariant_empty: "registry_invariant empty_request"
  unfolding registry_invariant_def
  by (simp add: registry_def declared_def registered_def empty_request_def)

text \<open>
  C5. Every request reached from the zero request by a sequence of \<open>AppendTools\<close> calls,
  failing ones included, satisfies the invariant: the registry is finite, each of its
  keys is the non-empty name of the tool stored under it, and the declared-tool list is,
  as a multiset, exactly what the tools in the registry contribute (one entry for each
  function tool with a non-nil declaration, nothing for any other tool).
\<close>

theorem registry_invariant_reachable:
  "registry_invariant (AppendTools_calls empty_request batches)"
  by (rule registry_invariant_calls [OF registry_invariant_empty])

theorem registry_invariant_reachable_witness:
  "registry (AppendTools_calls empty_request [same_name_batch, [None]]) ''add'' = Some add_Tool \<and>
   tool_Name add_Tool = ''add'' \<and>
   registry_invariant (AppendTools_calls empty_request [same_name_batch, [None]])"
proof (intro conjI)
  show "registry (AppendTools_calls empty_request [same_name_batch, [None]]) ''add'' =
          Some add_Tool"
    by (simp add: registry_after_nil_call same_name_batch_result(2))
next
  show "tool_Name add_Tool = ''add''"
    by (simp add: add_Tool_def as_Tool_def FunctionTool_Name_def add_tool_def add_config_def)
next
  show "registry_invariant (AppendTools_calls empty_request [same_name_batch, [None]])"
    by (rule registry_invariant_reachable)
qed

end
